theory Spec2Isabelle
  imports Complex_Main
begin

section \<open>The sign-up page of rain-signup (src/pages/index.tsx)\<close>

text \<open>
  The page is one React component, \<open>Home\<close>. This theory embeds the three parts of it
  that carry logic: the tier table \<open>scoreMap\<close> with the strength meter rendered from it,
  the validation \<open>schema\<close> handed to the form, and the debounced scoring request
  (\<open>useDebounce\<close> feeding the key of \<open>useSWR\<close>).
\<close>

subsection \<open>JavaScript values\<close>

text \<open>
  A JavaScript number is a finite double, an infinity or NaN. Every finite double is a
  rational, so \<open>Fin\<close> carries a \<open>rat\<close>; no arithmetic is done on numbers anywhere in the
  page, they are only compared.
\<close>

datatype js_number = Fin rat | PosInf | NegInf | NaN

text \<open>The primitive values a form field or a candidate object's property can hold.\<close>

datatype js_value = Undefined | Null | Bool bool | Num js_number | Str string

text \<open>\<open>!!v\<close>: the truthiness of a value.\<close>

fun truthy :: "js_value \<Rightarrow> bool" where
  "truthy Undefined = False"
| "truthy Null = False"
| "truthy (Bool b) = b"
| "truthy (Num n) = (n \<noteq> Fin 0 \<and> n \<noteq> NaN)"
| "truthy (Str s) = (s \<noteq> [])"

subsection \<open>The tier table and the strength meter (lines 30-36, 106-109, 162-172)\<close>

record tier =
  key :: string
  score :: nat
  color :: string

text \<open>
  \<open>scoreMap\<close> is an object literal with the five property keys 0 to 4. A number indexes it
  through its canonical decimal string, and two numbers print alike exactly when they
  are equal, so the lookup of a number is a lookup by numeric equality.
\<close>

definition scoreMap :: "(rat \<times> tier) list" where
  "scoreMap =
    [(0, \<lparr>key = ''very_weak'', score = 20, color = ''red''\<rparr>),
     (1, \<lparr>key = ''weak'', score = 40, color = ''orange''\<rparr>),
     (2, \<lparr>key = ''average'', score = 60, color = ''yellow''\<rparr>),
     (3, \<lparr>key = ''strong'', score = 80, color = ''cyan''\<rparr>),
     (4, \<lparr>key = ''very_strong'', score = 100, color = ''green''\<rparr>)]"

text \<open>
  \<open>scoreMap[score]\<close>, for \<open>score\<close> a number or undefined (\<open>None\<close>): the property keys
  \<open>"undefined"\<close>, \<open>"NaN"\<close>, \<open>"Infinity"\<close> and \<open>"-Infinity"\<close> are not in the object.
\<close>

fun scoreMap_at :: "js_number option \<Rightarrow> tier option" where
  "scoreMap_at None = None"
| "scoreMap_at (Some (Fin q)) = map_of scoreMap q"
| "scoreMap_at (Some PosInf) = None"
| "scoreMap_at (Some NegInf) = None"
| "scoreMap_at (Some NaN) = None"

text \<open>
  The body of the scoring response, as far as the page reads it: its \<open>score\<close> property,
  a number when present (the cast of line 106). \<open>data\<close> is \<open>None\<close> while \<open>useSWR\<close> has no
  settled response.
\<close>

record response =
  resp_score :: "js_number option"

definition score_of :: "response option \<Rightarrow> js_number option" where
  "score_of data = (case data of None \<Rightarrow> None | Some r \<Rightarrow> resp_score r)"

definition scoreTextKey :: "response option \<Rightarrow> string option" where
  "scoreTextKey data = map_option key (scoreMap_at (score_of data))"

definition scoreProgress :: "response option \<Rightarrow> nat option" where
  "scoreProgress data = map_option score (scoreMap_at (score_of data))"

definition scoreColor :: "response option \<Rightarrow> string option" where
  "scoreColor data = map_option color (scoreMap_at (score_of data))"

text \<open>
  The fragment guarded by \<open>scoreTextKey &&\<close>: the progress bar, the label and the three
  hint lines. \<open>t\<close> is the translation lookup of \<open>useTranslation\<close>. An undefined or empty
  \<open>scoreTextKey\<close> is falsy and renders nothing.
\<close>

record meter =
  colorScheme :: "string option"
  progress_value :: "nat option"
  label :: string
  hints :: "string list"

definition strength_meter :: "(string \<Rightarrow> string) \<Rightarrow> response option \<Rightarrow> meter option" where
  "strength_meter t data =
    (case scoreTextKey data of
       None \<Rightarrow> None
     | Some k \<Rightarrow>
         if k = [] then None
         else Some \<lparr>colorScheme = scoreColor data,
                    progress_value = scoreProgress data,
                    label = t k,
                    hints = [t ''not_repetitive'', t ''not_include_name'', t ''min_required'']\<rparr>)"

subsection \<open>The validation schema (lines 57-67) and the submit handler (lines 111-113)\<close>

datatype field = FirstName | MiddleName | LastName | Email | Password

text \<open>
  The issues the schema's checks raise: a wrong type (zod words it "Required" when the
  value is undefined), a number under the minimum, and the email format check with the
  message given to it.
\<close>

datatype issue =
    Required
  | Invalid_type string string
  | Too_small rat
  | Invalid_email string

text \<open>The name zod gives the type of a value it rejects.\<close>

fun parsed_type :: "js_value \<Rightarrow> string" where
  "parsed_type Undefined = ''undefined''"
| "parsed_type Null = ''null''"
| "parsed_type (Bool b) = ''boolean''"
| "parsed_type (Num n) = (if n = NaN then ''nan'' else ''number'')"
| "parsed_type (Str s) = ''string''"

definition wrong_type :: "string \<Rightarrow> js_value \<Rightarrow> issue" where
  "wrong_type expected v =
    (if v = Undefined then Required else Invalid_type expected (parsed_type v))"

text \<open>\<open>z.string()\<close>: any string passes, the empty one too.\<close>

fun z_string :: "js_value \<Rightarrow> issue list" where
  "z_string (Str s) = []"
| "z_string v = [wrong_type ''string'' v]"

text \<open>\<open>z.string().email({ message })\<close>: the format check runs on strings only.\<close>

fun z_string_email :: "(string \<Rightarrow> bool) \<Rightarrow> string \<Rightarrow> js_value \<Rightarrow> issue list" where
  "z_string_email is_email message (Str s) = (if is_email s then [] else [Invalid_email message])"
| "z_string_email is_email message v = [wrong_type ''string'' v]"

text \<open>\<open>z.number().min(m)\<close>: a number other than NaN that is not less than \<open>m\<close>.\<close>

fun less_than :: "js_number \<Rightarrow> rat \<Rightarrow> bool" where
  "less_than (Fin q) m = (q < m)"
| "less_than NegInf m = True"
| "less_than PosInf m = False"
| "less_than NaN m = False"

fun z_number_min :: "rat \<Rightarrow> js_value \<Rightarrow> issue list" where
  "z_number_min m (Num n) =
    (if n = NaN then [wrong_type ''number'' (Num n)]
     else if less_than n m then [Too_small m] else [])"
| "z_number_min m v = [wrong_type ''number'' v]"

text \<open>The candidate object the schema is run on: one property per schema key.\<close>

record form_values =
  firstName :: js_value
  middleName :: js_value
  lastName :: js_value
  email :: js_value
  password :: js_value

text \<open>
  The schema, with its issues listed by field in the order of the object's keys. The
  translation lookup \<open>t\<close> and the email format rule of the validation library are
  parameters.
\<close>

definition schema ::
  "(string \<Rightarrow> string) \<Rightarrow> (string \<Rightarrow> bool) \<Rightarrow> form_values \<Rightarrow> (field \<times> issue) list" where
  "schema t is_email v =
     map (Pair FirstName) (z_number_min 10 (firstName v))
   @ map (Pair MiddleName) (z_string (middleName v))
   @ map (Pair LastName) (z_string (lastName v))
   @ map (Pair Email) (z_string_email is_email (t ''email_invalid'') (email v))
   @ map (Pair Password) (z_string (password v))"

text \<open>The error entry of one field: the first issue raised for it, if any.\<close>

definition error_of :: "(field \<times> issue) list \<Rightarrow> field \<Rightarrow> issue option" where
  "error_of errs f = map_of errs f"

text \<open>
  \<open>handleSubmit\<close> with the schema as resolver: the callback (which logs the values) runs
  only when the schema raises no issue.
\<close>

datatype submit_result = Logged form_values | Errors "(field \<times> issue) list"

definition onSubmit ::
  "(string \<Rightarrow> string) \<Rightarrow> (string \<Rightarrow> bool) \<Rightarrow> form_values \<Rightarrow> submit_result" where
  "onSubmit t is_email v =
    (case schema t is_email v of [] \<Rightarrow> Logged v | e # es \<Rightarrow> Errors (e # es))"

subsection \<open>The debounced scoring request (lines 47-53, 79-104)\<close>

text \<open>
  \<open>fetcher\<close> posts to the url with a two-property body. \<open>axios.post\<close> gets no third
  argument, so the call carries no configuration of its own (headers, timeout).
\<close>

datatype http_method = GET | POST

record request_body =
  body_password :: js_value
  related_terms :: "js_value list"

record axios_config =
  headers :: "(string \<times> string) list"
  timeout :: "nat option"

record http_request =
  http_method :: http_method
  url :: string
  body :: request_body
  config :: "axios_config option"

definition fetcher :: "string \<Rightarrow> js_value \<Rightarrow> js_value list \<Rightarrow> http_request" where
  "fetcher u pw terms =
    \<lparr>http_method = POST, url = u,
     body = \<lparr>body_password = pw, related_terms = terms\<rparr>,
     config = None\<rparr>"

text \<open>
  The options of \<open>useSWR\<close> that decide when a call is made again. The page overrides one
  of the library's defaults (line 103).
\<close>

record swr_config =
  revalidateOnFocus :: bool
  revalidateOnReconnect :: bool
  shouldRetryOnError :: bool

definition swr_defaults :: swr_config where
  "swr_defaults =
    \<lparr>revalidateOnFocus = True, revalidateOnReconnect = True, shouldRetryOnError = True\<rparr>"

definition useSWR_options :: swr_config where
  "useSWR_options = swr_defaults\<lparr>revalidateOnFocus := False\<rparr>"

text \<open>The key handed to \<open>useSWR\<close> by a render.\<close>

type_synonym swr_key = "string \<times> js_value \<times> js_value list"

text \<open>
  The state of the mounted component: the form's values as \<open>watch\<close> reports them, the
  \<open>debouncedPassword\<close> state, the timeout \<open>useDebounce\<close> has pending (milliseconds
  left), the calls \<open>useSWR\<close> has made to \<open>fetcher\<close>, oldest first, and the keys \<open>useSWR\<close>
  holds in its table of requests: those whose call is under way or was answered less
  than the deduping interval ago.
\<close>

record page =
  form :: form_values
  debouncedPassword :: js_value
  timer :: "nat option"
  requests :: "http_request list"
  fetching :: "swr_key list"

definition endpoint :: string where
  "endpoint = ''https://dev-gcc.rain-test.com/api/1/password/strength''"

definition delay :: nat where
  "delay = 1000"

text \<open>\<open>watch(['email', 'firstName', 'lastName', 'middleName'])\<close>.\<close>

definition relatedTerms :: "form_values \<Rightarrow> js_value list" where
  "relatedTerms v = [email v, firstName v, lastName v, middleName v]"

text \<open>The first argument of \<open>useSWR\<close>; \<open>None\<close> is the null key (no request).\<close>

definition swr_key :: "page \<Rightarrow> swr_key option" where
  "swr_key s =
    (if truthy (debouncedPassword s)
     then Some (endpoint, debouncedPassword s, filter truthy (relatedTerms (form s)))
     else None)"

text \<open>
  \<open>useSWR(key, fetcher)\<close> calls \<open>fetcher\<close> with the elements of a key that is not null, and
  \<open>data\<close> is the settled response for the current key (\<open>answer\<close> gives, for each key,
  the response its call has settled with so far, if any).
\<close>

definition useSWR_call :: "page \<Rightarrow> http_request option" where
  "useSWR_call s =
    (case swr_key s of None \<Rightarrow> None | Some (u, pw, terms) \<Rightarrow> Some (fetcher u pw terms))"

definition useSWR_data :: "(swr_key \<Rightarrow> response option) \<Rightarrow> page \<Rightarrow> response option" where
  "useSWR_data answer s = (case swr_key s of None \<Rightarrow> None | Some k \<Rightarrow> answer k)"

text \<open>
  \<open>useSWR\<close> revalidates a key with deduping: it calls \<open>fetcher\<close> unless the key is in its
  table of requests.
\<close>

definition start_request :: "swr_key \<Rightarrow> page \<Rightarrow> page" where
  "start_request k s =
    (if k \<in> set (fetching s) then s
     else s\<lparr>requests := requests s @ [case k of (u, pw, terms) \<Rightarrow> fetcher u pw terms],
            fetching := k # fetching s\<rparr>)"

text \<open>
  A render after the state \<open>prev\<close> of the previous render. \<open>useSWR\<close> identifies a key by
  its contents and revalidates when it is handed a key other than the previous
  render's. \<open>watch\<close> builds a new \<open>relatedTerms\<close> array in every render, so the dependency
  list of \<open>useDebounce\<close> differs from the previous one in every render and the timeout is
  started afresh.
\<close>

definition render :: "page \<Rightarrow> page \<Rightarrow> page" where
  "render prev s =
    (case swr_key s of
       None \<Rightarrow> s
     | Some k \<Rightarrow> if swr_key prev = Some k then s else start_request k s)
    \<lparr>timer := Some delay\<rparr>"

text \<open>
  \<open>setDebouncedPassword\<close>: React keeps the state and renders nothing when the new
  value is the current one.
\<close>

definition setDebouncedPassword :: "js_value \<Rightarrow> page \<Rightarrow> page" where
  "setDebouncedPassword v s =
    (if v = debouncedPassword s then s else render s (s\<lparr>debouncedPassword := v\<rparr>))"

text \<open>
  The callback given to \<open>useDebounce\<close>. The hook calls the callback of the latest
  render, so \<open>password\<close> is the form's current value.
\<close>

definition debounce_callback :: "page \<Rightarrow> page" where
  "debounce_callback s =
    (if truthy (password (form s)) then setDebouncedPassword (password (form s)) s else s)"

definition timeout_fires :: "page \<Rightarrow> page" where
  "timeout_fires s = debounce_callback (s\<lparr>timer := None\<rparr>)"

text \<open>
  The mounted page before any input: every registered input holds the empty string.
\<close>

definition mounted :: page where
  "mounted =
    \<lparr>form = \<lparr>firstName = Str [], middleName = Str [], lastName = Str [],
             email = Str [], password = Str []\<rparr>,
     debouncedPassword = Str [],
     timer = Some delay,
     requests = [],
     fetching = []\<rparr>"

fun set_field :: "field \<Rightarrow> js_value \<Rightarrow> form_values \<Rightarrow> form_values" where
  "set_field FirstName x v = v\<lparr>firstName := x\<rparr>"
| "set_field MiddleName x v = v\<lparr>middleName := x\<rparr>"
| "set_field LastName x v = v\<lparr>lastName := x\<rparr>"
| "set_field Email x v = v\<lparr>email := x\<rparr>"
| "set_field Password x v = v\<lparr>password := x\<rparr>"

text \<open>An input changes a field: the form stores the value and the page renders.\<close>

definition change :: "field \<Rightarrow> js_value \<Rightarrow> page \<Rightarrow> page" where
  "change f x s = render s (s\<lparr>form := set_field f x (form s)\<rparr>)"

text \<open>
  A render for any other reason: a response arrives, a call is under way or done, an
  error is shown.
\<close>

definition rerender :: "page \<Rightarrow> page" where
  "rerender s = render s s"

text \<open>
  \<open>useSWR\<close> revalidates the current key (after a failure, on reconnect, on focus). The
  page renders when a call starts.
\<close>

definition revalidate :: "page \<Rightarrow> page" where
  "revalidate s =
    (case swr_key s of
       None \<Rightarrow> s
     | Some k \<Rightarrow> if k \<in> set (fetching s) then s else render s (start_request k s))"

text \<open>
  The call for the current key fails: \<open>useSWR\<close> drops the key from its table at once and
  the page renders.
\<close>

definition failed :: "page \<Rightarrow> page" where
  "failed s =
    (case swr_key s of
       None \<Rightarrow> s
     | Some k \<Rightarrow> rerender (s\<lparr>fetching := removeAll k (fetching s)\<rparr>))"

text \<open>The deduping interval of an answered call is over: its key leaves the table.\<close>

definition expired :: "swr_key \<Rightarrow> page \<Rightarrow> page" where
  "expired k s = s\<lparr>fetching := removeAll k (fetching s)\<rparr>"

text \<open>
  \<open>d\<close> milliseconds pass with no input. A pending timeout that comes due fires, and the
  rest of the time passes in the state it leaves.
\<close>

function wait :: "nat \<Rightarrow> page \<Rightarrow> page" where
  "wait d s =
    (case timer s of
       None \<Rightarrow> s
     | Some r \<Rightarrow> if d < r then s\<lparr>timer := Some (r - d)\<rparr> else wait (d - r) (timeout_fires s))"
  by pat_completeness auto
termination
proof (relation "measure (\<lambda>(d, s). 2 * d + (if timer s = Some 0 then 1 else 0))")
  show "wf (measure (\<lambda>(d, s). 2 * d + (if timer s = Some 0 then 1 else 0)))"
    by simp
next
  fix d :: nat and s :: page and r :: nat
  assume r: "timer s = Some r" and d: "\<not> d < r"
  have "timer (timeout_fires s) \<noteq> Some 0"
    by (simp add: timeout_fires_def debounce_callback_def setDebouncedPassword_def
        render_def delay_def)
  with r d show "((d - r, timeout_fires s), (d, s))
      \<in> measure (\<lambda>(d, s). 2 * d + (if timer s = Some 0 then 1 else 0))"
    by (cases "r = 0") auto
qed

text \<open>
  What happens to the page: an input, time passing, a render for another reason, and
  the occasions on which \<open>useSWR\<close> may call again. A failed call is retried when the
  retry delay is over, and the window's focus or a reconnect revalidates, each if its
  option is on.
\<close>

datatype event =
    Change field js_value
  | Wait nat
  | Rerender
  | Failed
  | Retry
  | Focus
  | Reconnect
  | Expired swr_key

fun step :: "event \<Rightarrow> page \<Rightarrow> page" where
  "step (Change f x) s = change f x s"
| "step (Wait d) s = wait d s"
| "step Rerender s = rerender s"
| "step Failed s = failed s"
| "step Retry s = (if shouldRetryOnError useSWR_options then revalidate s else s)"
| "step Focus s = (if revalidateOnFocus useSWR_options then revalidate s else s)"
| "step Reconnect s = (if revalidateOnReconnect useSWR_options then revalidate s else s)"
| "step (Expired k) s = expired k s"

fun run :: "event list \<Rightarrow> page \<Rightarrow> page" where
  "run [] s = s"
| "run (e # es) s = run es (step e s)"

subsection \<open>Notions used to state the properties\<close>

text \<open>
  The email format rule belongs to the validation library and is a parameter of
  \<open>schema\<close>; the properties below hold for every rule. Closed examples run the schema
  with this one.
\<close>

definition sample_email_rule :: "string \<Rightarrow> bool" where
  "sample_email_rule s = (CHR ''@'' \<in> set s)"

text \<open>A settled response whose score is the number \<open>n\<close>.\<close>

abbreviation scored :: "js_number \<Rightarrow> response option" where
  "scored n \<equiv> Some \<lparr>resp_score = Some n\<rparr>"

text \<open>A string, and a string that is not empty.\<close>

fun is_text :: "js_value \<Rightarrow> bool" where
  "is_text (Str s) = True"
| "is_text v = False"

fun nonempty_text :: "js_value \<Rightarrow> bool" where
  "nonempty_text (Str s) = (s \<noteq> [])"
| "nonempty_text v = False"

text \<open>What the five text inputs of the page give the form: a string for every field.\<close>

definition text_form :: "form_values \<Rightarrow> bool" where
  "text_form v =
    (is_text (firstName v) \<and> is_text (middleName v) \<and> is_text (lastName v) \<and>
     is_text (email v) \<and> is_text (password v))"

fun text_event :: "event \<Rightarrow> bool" where
  "text_event (Change f x) = is_text x"
| "text_event e = True"

definition text_page :: "page \<Rightarrow> bool" where
  "text_page s = (text_form (form s) \<and> is_text (debouncedPassword s))"



text \<open>Events that leave an empty password field empty.\<close>

fun keeps_password_empty :: "event \<Rightarrow> bool" where
  "keeps_password_empty (Change Password x) = (\<not> truthy x)"
| "keeps_password_empty e = True"

text \<open>
  A state in which the callback of \<open>useDebounce\<close> changes nothing: the password is empty
  or is the debounced one already.
\<close>

definition settled :: "page \<Rightarrow> bool" where
  "settled s = (\<not> truthy (password (form s)) \<or> password (form s) = debouncedPassword s)"

text \<open>What is left of a timeout after \<open>d\<close> milliseconds in which it is not restarted.\<close>

definition run_down :: "nat \<Rightarrow> nat option \<Rightarrow> nat option" where
  "run_down d tm = (case tm of None \<Rightarrow> None | Some r \<Rightarrow> if d < r then Some (r - d) else None)"

text \<open>
  The shape of a scoring call: a POST to the endpoint with no configuration, a non-empty
  string as password and non-empty strings as related terms.
\<close>

definition scoring_call :: "http_request \<Rightarrow> bool" where
  "scoring_call r =
    (http_method r = POST \<and> url r = endpoint \<and> config r = None \<and>
     nonempty_text (body_password (body r)) \<and>
     list_all nonempty_text (related_terms (body r)))"

section \<open>Properties\<close>

subsection \<open>Auxiliary facts: tiers and schema\<close>

lemmas meter_defs =
  strength_meter_def scoreTextKey_def scoreColor_def scoreProgress_def score_of_def

lemma scoreMap_at_Some_iff:
  "(scoreMap_at (Some n) \<noteq> None) = (n \<in> {Fin 0, Fin 1, Fin 2, Fin 3, Fin 4})"
  by (cases n) (auto simp add: scoreMap_def)

lemma keys_nonempty: "scoreMap_at x = Some e \<Longrightarrow> key e \<noteq> []"
  by (cases x rule: scoreMap_at.cases) (auto simp add: scoreMap_def split: if_splits)

lemma strength_meter_None_iff:
  "(strength_meter t data = None) = (scoreMap_at (score_of data) = None)"
  by (auto simp add: strength_meter_def scoreTextKey_def dest: keys_nonempty split: option.splits)

lemma strength_meter_score:
  assumes "score_of d = score_of d'"
  shows "strength_meter t d = strength_meter t d'"
proof -
  have "scoreTextKey d = scoreTextKey d'" "scoreColor d = scoreColor d'"
    "scoreProgress d = scoreProgress d'"
    using assms by (simp_all add: scoreTextKey_def scoreColor_def scoreProgress_def)
  then show ?thesis by (simp add: strength_meter_def split: option.split)
qed

lemma map_of_Pair:
  "map_of (map (Pair f) xs) g =
    (if g = f then (case xs of [] \<Rightarrow> None | x # _ \<Rightarrow> Some x) else None)"
  by (cases xs) (auto simp add: map_of_eq_None_iff)

lemma error_of_schema:
  "error_of (schema t is_email v) f =
    (case (case f of
        FirstName \<Rightarrow> z_number_min 10 (firstName v)
      | MiddleName \<Rightarrow> z_string (middleName v)
      | LastName \<Rightarrow> z_string (lastName v)
      | Email \<Rightarrow> z_string_email is_email (t ''email_invalid'') (email v)
      | Password \<Rightarrow> z_string (password v)) of [] \<Rightarrow> None | x # _ \<Rightarrow> Some x)"
  by (cases f)
    (simp_all add: error_of_def schema_def map_add_def map_of_Pair
      split: list.splits option.splits)


subsection \<open>Auxiliary facts: the timeout and the requests\<close>

declare wait.simps [simp del]

lemma wait_None: "timer s = None \<Longrightarrow> wait d s = s"
  by (simp add: wait.simps)

lemma wait_early: "timer s = Some r \<Longrightarrow> d < r \<Longrightarrow> wait d s = s\<lparr>timer := Some (r - d)\<rparr>"
  by (simp add: wait.simps)

lemma wait_due: "timer s = Some r \<Longrightarrow> r \<le> d \<Longrightarrow> wait d s = wait (d - r) (timeout_fires s)"
  by (subst wait.simps) simp

lemma start_request_fields [simp]:
  "form (start_request k s) = form s"
  "debouncedPassword (start_request k s) = debouncedPassword s"
  "timer (start_request k s) = timer s"
  by (simp_all add: start_request_def)

lemma render_fields [simp]:
  "form (render p s) = form s"
  "debouncedPassword (render p s) = debouncedPassword s"
  "timer (render p s) = Some delay"
  by (simp_all add: render_def split: option.split)

lemma swr_key_simps [simp]:
  "swr_key (render p s) = swr_key s"
  "swr_key (start_request k s) = swr_key s"
  "swr_key (s\<lparr>timer := tm\<rparr>) = swr_key s"
  "swr_key (s\<lparr>fetching := ks\<rparr>) = swr_key s"
  "swr_key (s\<lparr>requests := rs\<rparr>) = swr_key s"
  by (simp_all add: swr_key_def)

lemma useSWR_call_simps [simp]:
  "useSWR_call (render p s) = useSWR_call s"
  "useSWR_call (start_request k s) = useSWR_call s"
  "useSWR_call (s\<lparr>timer := tm\<rparr>) = useSWR_call s"
  "useSWR_call (s\<lparr>fetching := ks\<rparr>) = useSWR_call s"
  by (simp_all add: useSWR_call_def)

lemma timeout_fires_settled: "settled s \<Longrightarrow> timeout_fires s = s\<lparr>timer := None\<rparr>"
  by (auto simp add: settled_def timeout_fires_def debounce_callback_def setDebouncedPassword_def)

lemma timeout_fires_commit:
  "truthy (password (form s)) \<Longrightarrow> password (form s) \<noteq> debouncedPassword s \<Longrightarrow>
   timeout_fires s =
     (start_request (endpoint, password (form s), filter truthy (relatedTerms (form s)))
       (s\<lparr>debouncedPassword := password (form s)\<rparr>))\<lparr>timer := Some delay\<rparr>"
  by (simp add: timeout_fires_def debounce_callback_def setDebouncedPassword_def render_def
      swr_key_def start_request_def)

lemma settled_timeout_fires: "settled (timeout_fires s)"
proof (cases "settled s")
  case True
  then show ?thesis by (simp add: timeout_fires_settled) (simp add: settled_def)
next
  case False
  then show ?thesis by (simp add: settled_def timeout_fires_commit)
qed

lemma settled_timer [simp]: "settled (s\<lparr>timer := tm\<rparr>) = settled s"
  by (simp add: settled_def)

lemma wait_settled: "settled s \<Longrightarrow> wait d s = s\<lparr>timer := run_down d (timer s)\<rparr>"
proof (cases "timer s")
  case None
  then show ?thesis by (simp add: wait_None run_down_def)
next
  case (Some r)
  assume st: "settled s"
  show ?thesis
  proof (cases "d < r")
    case True
    with Some show ?thesis by (simp add: wait_early run_down_def)
  next
    case False
    with Some have "wait d s = wait (d - r) (s\<lparr>timer := None\<rparr>)"
      by (simp add: wait_due timeout_fires_settled [OF st])
    with Some False show ?thesis by (simp add: wait_None run_down_def)
  qed
qed

lemma wait_fired:
  "timer s = Some r \<Longrightarrow> r \<le> d \<Longrightarrow>
   wait d s = (timeout_fires s)\<lparr>timer := run_down (d - r) (timer (timeout_fires s))\<rparr>"
  by (simp add: wait_due wait_settled [OF settled_timeout_fires])

lemma wait_cases:
  obtains "wait d s = s"
  | r where "wait d s = s\<lparr>timer := Some r\<rparr>"
  | tm where "wait d s = (timeout_fires s)\<lparr>timer := tm\<rparr>"
proof (cases "timer s")
  case None
  then show ?thesis using that(1) by (simp add: wait_None)
next
  case (Some r)
  then show ?thesis
    using that(2) [of "r - d"] that(3) by (cases "d < r") (simp_all add: wait_early wait_fired)
qed

lemma form_timeout_fires: "form (timeout_fires s) = form s"
  by (simp add: timeout_fires_def debounce_callback_def setDebouncedPassword_def)

lemma form_wait: "form (wait d s) = form s"
  by (rule wait_cases [of d s]) (simp_all add: form_timeout_fires)

lemma debounced_timeout_fires:
  "debouncedPassword (timeout_fires s) =
    (if truthy (password (form s)) then password (form s) else debouncedPassword s)"
  by (simp add: timeout_fires_def debounce_callback_def setDebouncedPassword_def)

lemma debounced_wait_cases:
  "debouncedPassword (wait d s) = debouncedPassword s \<or>
   (truthy (password (form s)) \<and> debouncedPassword (wait d s) = password (form s))"
  by (rule wait_cases [of d s]) (auto simp add: debounced_timeout_fires)

lemma revalidate_fields [simp]:
  "form (revalidate s) = form s"
  "debouncedPassword (revalidate s) = debouncedPassword s"
  by (simp_all add: revalidate_def split: option.split)

lemma failed_fields [simp]:
  "form (failed s) = form s"
  "debouncedPassword (failed s) = debouncedPassword s"
  by (simp_all add: failed_def rerender_def split: option.split)



lemma debounced_step_cases:
  "debouncedPassword (step e s) = debouncedPassword s \<or>
   (truthy (password (form s)) \<and> debouncedPassword (step e s) = password (form s))"
  using debounced_wait_cases by (cases e) (simp_all add: change_def rerender_def expired_def)

lemma truthy_debounced_step:
  "truthy (debouncedPassword s) \<Longrightarrow> truthy (debouncedPassword (step e s))"
  using debounced_step_cases [of e s] by auto

lemma truthy_debounced_run:
  "truthy (debouncedPassword s) \<Longrightarrow> truthy (debouncedPassword (run es s))"
  by (induction es arbitrary: s) (simp_all add: truthy_debounced_step)

lemma password_step:
  "keeps_password_empty e \<Longrightarrow> \<not> truthy (password (form s)) \<Longrightarrow>
   \<not> truthy (password (form (step e s)))"
proof (cases e)
  case (Change f x)
  assume "keeps_password_empty e" "\<not> truthy (password (form s))"
  with Change show ?thesis by (cases f) (simp_all add: change_def)
qed (simp_all add: form_wait rerender_def expired_def)

lemma empty_step_debounced:
  "\<not> truthy (password (form s)) \<Longrightarrow> debouncedPassword (step e s) = debouncedPassword s"
  using debounced_step_cases [of e s] by auto

lemma empty_run:
  "list_all keeps_password_empty es \<Longrightarrow> \<not> truthy (password (form s)) \<Longrightarrow>
   debouncedPassword (run es s) = debouncedPassword s \<and> \<not> truthy (password (form (run es s)))"
  by (induction es arbitrary: s) (simp_all add: password_step empty_step_debounced)








lemma useSWR_call_eq:
  "useSWR_call s =
    (if truthy (debouncedPassword s)
     then Some (fetcher endpoint (debouncedPassword s) (filter truthy (relatedTerms (form s))))
     else None)"
  by (simp add: useSWR_call_def swr_key_def)

lemma requests_start_request:
  "swr_key s = Some k \<Longrightarrow>
   requests (start_request k s) = requests s \<or>
   (\<exists>r. useSWR_call s = Some r \<and> requests (start_request k s) = requests s @ [r])"
  by (cases k) (simp add: start_request_def useSWR_call_def)

lemma requests_render:
  "requests s' = requests s \<Longrightarrow>
   requests (render p s') = requests s \<or>
   (\<exists>r. useSWR_call (render p s') = Some r \<and> requests (render p s') = requests s @ [r])"
proof (cases "swr_key s'")
  case None
  assume "requests s' = requests s"
  with None show ?thesis by (simp add: render_def)
next
  case (Some k)
  assume "requests s' = requests s"
  with Some requests_start_request [OF Some] show ?thesis
    by (cases "swr_key p = Some k") (auto simp add: render_def)
qed

lemma requests_timeout_fires:
  "requests ((timeout_fires s)\<lparr>timer := tm\<rparr>) = requests s \<or>
   (\<exists>r. useSWR_call ((timeout_fires s)\<lparr>timer := tm\<rparr>) = Some r \<and>
        requests ((timeout_fires s)\<lparr>timer := tm\<rparr>) = requests s @ [r])"
proof (cases "settled s")
  case True
  then show ?thesis by (simp add: timeout_fires_settled)
next
  case False
  then have "truthy (password (form s))" "password (form s) \<noteq> debouncedPassword s"
    by (simp_all add: settled_def)
  then show ?thesis
    by (simp add: timeout_fires_commit useSWR_call_eq) (simp add: start_request_def)
qed

lemma requests_wait:
  "requests (wait d s) = requests s \<or>
   (\<exists>r. useSWR_call (wait d s) = Some r \<and> requests (wait d s) = requests s @ [r])"
proof (rule wait_cases [of d s])
  fix tm
  assume "wait d s = (timeout_fires s)\<lparr>timer := tm\<rparr>"
  then show ?thesis using requests_timeout_fires [where s = s and tm = tm] by simp
qed simp_all

lemma requests_revalidate:
  "requests (revalidate s) = requests s \<or>
   (\<exists>r. useSWR_call (revalidate s) = Some r \<and> requests (revalidate s) = requests s @ [r])"
proof (cases "swr_key s")
  case None
  then show ?thesis by (simp add: revalidate_def)
next
  case (Some k)
  show ?thesis
  proof (cases "k \<in> set (fetching s)")
    case True
    with Some show ?thesis by (simp add: revalidate_def)
  next
    case False
    have same: "swr_key (start_request k s) = Some k" using Some by simp
    have "revalidate s = (start_request k s)\<lparr>timer := Some delay\<rparr>"
      using Some False by (simp add: revalidate_def) (simp add: render_def same)
    with requests_start_request [OF Some] show ?thesis by auto
  qed
qed

lemma requests_failed: "requests (failed s) = requests s"
proof (cases "swr_key s")
  case None
  then show ?thesis by (simp add: failed_def)
next
  case (Some k)
  then show ?thesis by (simp add: failed_def rerender_def render_def)
qed

lemma requests_step:
  "requests (step e s) = requests s \<or>
   (\<exists>r. useSWR_call (step e s) = Some r \<and> requests (step e s) = requests s @ [r])"
proof (cases e)
  case (Change f x)
  then show ?thesis
    using requests_render [of "s\<lparr>form := set_field f x (form s)\<rparr>" s s]
    by (simp add: change_def)
next
  case (Wait d)
  then show ?thesis using requests_wait [of d s] by simp
next
  case Rerender
  then show ?thesis using requests_render [of s s s] by (simp add: rerender_def)
next
  case Failed
  then show ?thesis by (simp add: requests_failed)
next
  case Retry
  then show ?thesis using requests_revalidate [of s] by simp
next
  case Focus
  then show ?thesis using requests_revalidate [of s] by simp
next
  case Reconnect
  then show ?thesis using requests_revalidate [of s] by simp
next
  case (Expired k)
  then show ?thesis by (simp add: expired_def)
qed

lemma nonempty_text_iff: "nonempty_text x = (is_text x \<and> truthy x)"
  by (cases x) simp_all

lemma scoring_call_useSWR_call:
  assumes "text_page s" and "useSWR_call s = Some r"
  shows "scoring_call r"
proof -
  from assms(1) have "list_all is_text (relatedTerms (form s))" and "is_text (debouncedPassword s)"
    by (simp_all add: text_page_def text_form_def relatedTerms_def)
  then have "list_all nonempty_text (filter truthy (relatedTerms (form s)))"
    and "truthy (debouncedPassword s) \<longrightarrow> nonempty_text (debouncedPassword s)"
    by (auto simp add: list_all_iff nonempty_text_iff)
  with assms(2) show ?thesis
    by (auto simp add: useSWR_call_eq scoring_call_def fetcher_def split: if_splits)
qed

lemma text_form_set_field: "is_text x \<Longrightarrow> text_form v \<Longrightarrow> text_form (set_field f x v)"
  by (cases f) (simp_all add: text_form_def)

lemma text_page_step:
  assumes "text_event e" and "text_page s"
  shows "text_page (step e s)"
proof -
  have "text_form (form (step e s))"
    using assms
    by (cases e)
      (simp_all add: change_def form_wait rerender_def expired_def text_page_def
        text_form_set_field)
  moreover have "is_text (debouncedPassword (step e s))"
    using assms(2) debounced_step_cases [of e s] by (auto simp add: text_page_def text_form_def)
  ultimately show ?thesis by (simp add: text_page_def)
qed

lemma scoring_calls_step:
  assumes "text_event e" and "text_page s" and "list_all scoring_call (requests s)"
  shows "list_all scoring_call (requests (step e s))"
  using requests_step [of e s] assms(3)
    scoring_call_useSWR_call [OF text_page_step [OF assms(1,2)]]
  by auto

lemma scoring_calls_run:
  "list_all text_event es \<Longrightarrow> text_page s \<Longrightarrow> list_all scoring_call (requests s) \<Longrightarrow>
   list_all scoring_call (requests (run es s))"
  by (induction es arbitrary: s) (simp_all add: scoring_calls_step text_page_step)

lemma commit_sends:
  assumes "timer s = Some r" and "r \<le> d" and "truthy (password (form s))"
    and "password (form s) \<noteq> debouncedPassword s"
    and "(endpoint, password (form s), filter truthy (relatedTerms (form s))) \<notin> set (fetching s)"
  shows "requests (wait d s) =
    requests s @ [fetcher endpoint (password (form s)) (filter truthy (relatedTerms (form s)))]"
  using assms(5)
  by (simp add: wait_fired [OF assms(1,2)] timeout_fires_commit [OF assms(3,4)])
    (simp add: start_request_def)

lemma retry_sends:
  assumes "useSWR_call s = Some r"
  shows "requests (run [Failed, Retry] s) = requests s @ [r]"
proof -
  from assms obtain k where k: "swr_key s = Some k"
    by (auto simp add: useSWR_call_def split: option.splits)
  with assms have r: "r = (case k of (u, pw, terms) \<Rightarrow> fetcher u pw terms)"
    by (cases k) (simp add: useSWR_call_def)
  have f: "failed s = (s\<lparr>fetching := removeAll k (fetching s)\<rparr>)\<lparr>timer := Some delay\<rparr>"
    using k by (simp add: failed_def rerender_def render_def)
  have "swr_key (failed s) = Some k" using k by (simp add: f)
  then have "revalidate (failed s) =
      (start_request k (failed s))\<lparr>timer := Some delay\<rparr>"
    by (simp add: revalidate_def f) (simp add: render_def k)
  then show ?thesis
    by (simp add: useSWR_options_def swr_defaults_def) (simp add: f start_request_def r)
qed

lemmas eval_defs = mounted_def change_def rerender_def render_def start_request_def
  revalidate_def failed_def expired_def useSWR_options_def swr_defaults_def
  useSWR_call_def swr_key_def delay_def relatedTerms_def timeout_fires_def
  debounce_callback_def setDebouncedPassword_def fetcher_def endpoint_def

subsection \<open>The tier table\<close>

text \<open>
  C2. The meter depends on the response through its score only. The scores 0 to 4 give
  the labels \<open>very_weak\<close>, \<open>weak\<close>, \<open>average\<close>, \<open>strong\<close>, \<open>very_strong\<close> with the
  percentages 20, 40, 60, 80, 100 and the colors red, orange, yellow, cyan, green. A
  score under 0 or over 4, a response with no score and no response at all render
  nothing.
\<close>

theorem scoreMap_tiers:
  "(score_of d = score_of d' \<longrightarrow> strength_meter t d = strength_meter t d') \<and>
   strength_meter t (scored (Fin 0)) =
     Some \<lparr>colorScheme = Some ''red'', progress_value = Some 20, label = t ''very_weak'',
           hints = [t ''not_repetitive'', t ''not_include_name'', t ''min_required'']\<rparr> \<and>
   strength_meter t (scored (Fin 1)) =
     Some \<lparr>colorScheme = Some ''orange'', progress_value = Some 40, label = t ''weak'',
           hints = [t ''not_repetitive'', t ''not_include_name'', t ''min_required'']\<rparr> \<and>
   strength_meter t (scored (Fin 2)) =
     Some \<lparr>colorScheme = Some ''yellow'', progress_value = Some 60, label = t ''average'',
           hints = [t ''not_repetitive'', t ''not_include_name'', t ''min_required'']\<rparr> \<and>
   strength_meter t (scored (Fin 3)) =
     Some \<lparr>colorScheme = Some ''cyan'', progress_value = Some 80, label = t ''strong'',
           hints = [t ''not_repetitive'', t ''not_include_name'', t ''min_required'']\<rparr> \<and>
   strength_meter t (scored (Fin 4)) =
     Some \<lparr>colorScheme = Some ''green'', progress_value = Some 100, label = t ''very_strong'',
           hints = [t ''not_repetitive'', t ''not_include_name'', t ''min_required'']\<rparr> \<and>
   (\<forall>q. q < 0 \<or> 4 < q \<longrightarrow> strength_meter t (scored (Fin q)) = None) \<and>
   strength_meter t (scored PosInf) = None \<and>
   strength_meter t (scored NegInf) = None \<and>
   strength_meter t (Some \<lparr>resp_score = None\<rparr>) = None \<and>
   strength_meter t None = None"
  by (rule conjI [OF impI [OF strength_meter_score]]) (auto simp add: meter_defs scoreMap_def)

theorem scoreMap_tiers_witness:
  "strength_meter id (scored (Fin 5)) = None \<and> strength_meter id (scored (Fin (- 1))) = None \<and>
   strength_meter id (Some \<lparr>resp_score = Some (Fin 3)\<rparr>) = strength_meter id (scored (Fin 3))"
  using scoreMap_tiers [of "Some \<lparr>resp_score = Some (Fin 3)\<rparr>" "scored (Fin 3)" id]
  by simp

text \<open>
  C10. A tier is rendered for the numbers 0, 1, 2, 3 and 4 and for no other number: for
  any other score, a fraction between 0 and 4 included, the three lookups are undefined
  and nothing is rendered, as for an absent score.
\<close>

theorem tier_only_at_0_to_4:
  "(strength_meter t (scored n) \<noteq> None) = (n \<in> {Fin 0, Fin 1, Fin 2, Fin 3, Fin 4}) \<and>
   (n \<notin> {Fin 0, Fin 1, Fin 2, Fin 3, Fin 4} \<longrightarrow>
      scoreTextKey (scored n) = None \<and> scoreProgress (scored n) = None \<and>
      scoreColor (scored n) = None \<and>
      strength_meter t (scored n) = strength_meter t (Some \<lparr>resp_score = None\<rparr>) \<and>
      strength_meter t (scored n) = strength_meter t None)"
proof -
  have absent: "strength_meter t (Some \<lparr>resp_score = None\<rparr>) = None" "strength_meter t None = None"
    by (simp_all add: strength_meter_None_iff score_of_def)
  have "(strength_meter t (scored n) \<noteq> None) = (scoreMap_at (Some n) \<noteq> None)"
    by (simp add: strength_meter_None_iff score_of_def)
  then have shown:
    "(strength_meter t (scored n) \<noteq> None) = (n \<in> {Fin 0, Fin 1, Fin 2, Fin 3, Fin 4})"
    by (simp only: scoreMap_at_Some_iff)
  moreover have "scoreMap_at (Some n) = None" if "n \<notin> {Fin 0, Fin 1, Fin 2, Fin 3, Fin 4}"
    using that scoreMap_at_Some_iff [of n] by blast
  ultimately show ?thesis
    using absent by (auto simp add: scoreTextKey_def scoreProgress_def scoreColor_def score_of_def)
qed

theorem tier_only_at_0_to_4_witness:
  "strength_meter id (scored (Fin (5 / 2))) = None \<and>
   scoreTextKey (scored (Fin (5 / 2))) = None"
  using tier_only_at_0_to_4 [of id "Fin (5 / 2)"] by simp

subsection \<open>The validation schema\<close>

text \<open>
  C3, as the code has it. \<open>middleName\<close> must be a string and has no other constraint:
  a candidate whose \<open>middleName\<close> is a string, the empty one included, gets no error entry
  for it, and only such a candidate; an absent (undefined) \<open>middleName\<close> gets the entry
  Required.
\<close>

theorem middleName_string_only:
  "(\<forall>s. middleName v = Str s \<longrightarrow> error_of (schema t is_email v) MiddleName = None) \<and>
   (middleName v = Undefined \<longrightarrow> error_of (schema t is_email v) MiddleName = Some Required) \<and>
   (error_of (schema t is_email v) MiddleName = None \<longrightarrow> (\<exists>s. middleName v = Str s))"
  by (cases "middleName v") (simp_all add: error_of_schema wrong_type_def)

theorem middleName_string_only_witness:
  "error_of (schema id sample_email_rule
      \<lparr>firstName = Str ''Ann'', middleName = Str [], lastName = Undefined,
       email = Str ''ann'', password = Null\<rparr>) MiddleName = None"
  using middleName_string_only
    [of "\<lparr>firstName = Str ''Ann'', middleName = Str [], lastName = Undefined,
          email = Str ''ann'', password = Null\<rparr>" id sample_email_rule]
  by simp

text \<open>
  C3 as the claim states it: no error entry for an absent \<open>middleName\<close>. The schema answers
  Required.
\<close>

theorem middleName_absent_counterexample:
  "error_of (schema id sample_email_rule
      \<lparr>firstName = Num (Fin 10), middleName = Undefined, lastName = Str ''Doe'',
       email = Str ''ann@example.com'', password = Str ''secret''\<rparr>) MiddleName = Some Required"
  by (simp add: error_of_def schema_def wrong_type_def sample_email_rule_def)

text \<open>
  C4, as the code has it. A candidate whose \<open>lastName\<close>, \<open>email\<close> and \<open>password\<close> are
  non-empty strings, whose \<open>email\<close> passes the format rule, whose \<open>firstName\<close> is a number
  not under 10 and whose \<open>middleName\<close> is a string raises no issue, and the submit handler
  hands it to the callback.
\<close>

theorem schema_accepts:
  assumes "lastName v = Str l" "l \<noteq> []" "email v = Str e" "e \<noteq> []" "is_email e"
    and "password v = Str p" "p \<noteq> []" "firstName v = Num (Fin q)" "10 \<le> q"
    and "middleName v = Str m"
  shows "schema t is_email v = [] \<and> onSubmit t is_email v = Logged v"
  using assms by (simp add: schema_def onSubmit_def)

theorem schema_accepts_witness:
  "schema id sample_email_rule
      \<lparr>firstName = Num (Fin 12), middleName = Str ''May'', lastName = Str ''Doe'',
       email = Str ''ann@example.com'', password = Str ''secret''\<rparr> = []"
  using schema_accepts
    [of "\<lparr>firstName = Num (Fin 12), middleName = Str ''May'', lastName = Str ''Doe'',
          email = Str ''ann@example.com'', password = Str ''secret''\<rparr>"
      "''Doe''" "''ann@example.com''" sample_email_rule "''secret''" 12 "''May''" id]
  by (simp add: sample_email_rule_def)

text \<open>
  C4 as the claim states it sets no condition on \<open>middleName\<close>. A candidate that meets
  every condition of the claim and has no \<open>middleName\<close> is rejected.
\<close>

theorem valid_without_middleName_counterexample:
  "schema id sample_email_rule
      \<lparr>firstName = Num (Fin 12), middleName = Undefined, lastName = Str ''Doe'',
       email = Str ''ann@example.com'', password = Str ''secret''\<rparr> = [(MiddleName, Required)]"
  by (simp add: schema_def wrong_type_def sample_email_rule_def)




subsection \<open>The debounced request\<close>

text \<open>
  C1. The claim: every scoring request carries the password and the related terms as they
  stood when the debounce committed, and no request is issued for a watched value that
  was superseded within the delay. The page debounces the password only: the key of the
  request pairs \<open>debouncedPassword\<close> with the related terms of the current render. With
  the password \<open>abc\<close> committed, typing the email \<open>a\<close> and, 100 ms later, \<open>ab\<close> issues a
  request for each of the two values at once.
\<close>

theorem related_terms_not_debounced:
  "requests (run [Change Password (Str ''abc''), Wait 1000,
       Change Email (Str ''a''), Wait 100, Change Email (Str ''ab'')] mounted) =
     [fetcher endpoint (Str ''abc'') [],
      fetcher endpoint (Str ''abc'') [Str ''a''],
      fetcher endpoint (Str ''abc'') [Str ''ab'']]"
  by (simp add: eval_defs wait_early wait_due wait_None)




text \<open>
  C6. When the timeout fires while the password is empty, nothing is committed and no
  request is issued: the debounced password, the requests made and the key of \<open>useSWR\<close>
  are as before, whatever the state the timeout was started in.
\<close>

theorem empty_password_suppressed:
  assumes "\<not> truthy (password (form s))" and "timer s = Some r" and "r \<le> d"
  shows "timeout_fires s = s\<lparr>timer := None\<rparr> \<and> wait d s = s\<lparr>timer := None\<rparr> \<and>
    debouncedPassword (wait d s) = debouncedPassword s \<and>
    requests (wait d s) = requests s \<and> swr_key (wait d s) = swr_key s"
proof -
  from assms(1) have st: "settled s" by (simp add: settled_def)
  then have "wait d s = s\<lparr>timer := None\<rparr>"
    using assms(2,3) by (simp add: wait_settled run_down_def)
  with st show ?thesis by (simp add: timeout_fires_settled)
qed

text \<open>The password \<open>abc\<close> is cleared after 400 ms; the timeout fires 1000 ms later.\<close>

theorem empty_password_suppressed_witness:
  "wait 1000 (run [Change Password (Str ''abc''), Wait 400, Change Password (Str [])] mounted) =
    \<lparr>form = \<lparr>firstName = Str [], middleName = Str [], lastName = Str [],
             email = Str [], password = Str []\<rparr>,
     debouncedPassword = Str [], timer = None, requests = [], fetching = []\<rparr>"
  using empty_password_suppressed
    [of "run [Change Password (Str ''abc''), Wait 400, Change Password (Str [])] mounted" 1000 1000]
  by (simp add: eval_defs wait_early)

text \<open>
  C7, as the code has it. The call \<open>useSWR\<close> makes for a state is a POST to the fixed
  endpoint with the debounced password and the non-empty ones of email, firstName,
  lastName and middleName as body and no configuration (no header, no timeout); there is
  no call while the debounced password is empty. An event makes at most one call, the
  call of the state it leaves, and with text typed into the inputs every call made since
  the page was mounted has a non-empty string as password and non-empty strings as
  related terms. The call goes out when the timeout commits a new password whose key
  \<open>useSWR\<close> does not hold in its table of requests. The page switches off revalidation on
  focus only, so a call that has failed is made again by the retry of \<open>useSWR\<close>, and
  focus makes none.
\<close>

theorem scoring_call_is_a_post:
  "useSWR_call s =
     (if truthy (debouncedPassword s)
      then Some \<lparr>http_method = POST,
                 url = ''https://dev-gcc.rain-test.com/api/1/password/strength'',
                 body = \<lparr>body_password = debouncedPassword s,
                         related_terms = filter truthy
                           [email (form s), firstName (form s), lastName (form s),
                            middleName (form s)]\<rparr>,
                 config = None\<rparr>
      else None) \<and>
   (requests (step e s) = requests s \<or>
    (\<exists>c. useSWR_call (step e s) = Some c \<and> requests (step e s) = requests s @ [c])) \<and>
   (list_all text_event es \<longrightarrow> list_all scoring_call (requests (run es mounted))) \<and>
   (timer s = Some r \<and> r \<le> d \<and> truthy (password (form s)) \<and>
    password (form s) \<noteq> debouncedPassword s \<and>
    (endpoint, password (form s), filter truthy (relatedTerms (form s))) \<notin> set (fetching s) \<longrightarrow>
      requests (wait d s) =
        requests s @
          [\<lparr>http_method = POST,
            url = ''https://dev-gcc.rain-test.com/api/1/password/strength'',
            body = \<lparr>body_password = password (form s),
                    related_terms = filter truthy
                      [email (form s), firstName (form s), lastName (form s),
                       middleName (form s)]\<rparr>,
            config = None\<rparr>]) \<and>
   (\<forall>c. useSWR_call s = Some c \<longrightarrow> requests (run [Failed, Retry] s) = requests s @ [c]) \<and>
   step Focus s = s"
proof (intro conjI impI allI)
  show "useSWR_call s =
     (if truthy (debouncedPassword s)
      then Some \<lparr>http_method = POST,
                 url = ''https://dev-gcc.rain-test.com/api/1/password/strength'',
                 body = \<lparr>body_password = debouncedPassword s,
                         related_terms = filter truthy
                           [email (form s), firstName (form s), lastName (form s),
                            middleName (form s)]\<rparr>,
                 config = None\<rparr>
      else None)"
    by (simp add: useSWR_call_eq fetcher_def endpoint_def relatedTerms_def)
  show "requests (step e s) = requests s \<or>
    (\<exists>c. useSWR_call (step e s) = Some c \<and> requests (step e s) = requests s @ [c])"
    by (rule requests_step)
  show "list_all scoring_call (requests (run es mounted))" if "list_all text_event es"
    using that
    by (rule scoring_calls_run) (simp_all add: mounted_def text_page_def text_form_def)
  show "requests (wait d s) =
        requests s @
          [\<lparr>http_method = POST,
            url = ''https://dev-gcc.rain-test.com/api/1/password/strength'',
            body = \<lparr>body_password = password (form s),
                    related_terms = filter truthy
                      [email (form s), firstName (form s), lastName (form s),
                       middleName (form s)]\<rparr>,
            config = None\<rparr>]"
    if "timer s = Some r \<and> r \<le> d \<and> truthy (password (form s)) \<and>
      password (form s) \<noteq> debouncedPassword s \<and>
      (endpoint, password (form s), filter truthy (relatedTerms (form s))) \<notin> set (fetching s)"
    using commit_sends [of s r d] that
    by (simp add: fetcher_def endpoint_def relatedTerms_def)
  show "requests (run [Failed, Retry] s) = requests s @ [c]" if "useSWR_call s = Some c" for c
    using that by (rule retry_sends)
  show "step Focus s = s"
    by (simp add: useSWR_options_def swr_defaults_def)
qed

text \<open>
  An email and a first name are typed, then the password \<open>abc\<close>. When the timeout fires,
  the one call has the two names as related terms; the last name and the middle name,
  still empty, are left out. When that call fails and is retried, it goes out again.
\<close>

theorem scoring_call_is_a_post_witness:
  "requests (wait 1000 (run [Change Email (Str ''ann@example.com''),
       Change FirstName (Str ''Ann''), Change Password (Str ''abc'')] mounted)) =
     [\<lparr>http_method = POST,
       url = ''https://dev-gcc.rain-test.com/api/1/password/strength'',
       body = \<lparr>body_password = Str ''abc'',
               related_terms = [Str ''ann@example.com'', Str ''Ann'']\<rparr>,
       config = None\<rparr>] \<and>
   list_all scoring_call (requests (run [Change Email (Str ''ann@example.com''),
       Change FirstName (Str ''Ann''), Change Password (Str ''abc''), Wait 1000,
       Failed, Wait 5000, Retry] mounted))"
proof -
  have before: "run [Change Email (Str ''ann@example.com''), Change FirstName (Str ''Ann''),
       Change Password (Str ''abc'')] mounted =
      \<lparr>form = \<lparr>firstName = Str ''Ann'', middleName = Str [], lastName = Str [],
               email = Str ''ann@example.com'', password = Str ''abc''\<rparr>,
       debouncedPassword = Str [], timer = Some 1000, requests = [], fetching = []\<rparr>"
    by (simp add: eval_defs)
  have "requests (wait 1000 (run [Change Email (Str ''ann@example.com''),
       Change FirstName (Str ''Ann''), Change Password (Str ''abc'')] mounted)) =
     [\<lparr>http_method = POST,
       url = ''https://dev-gcc.rain-test.com/api/1/password/strength'',
       body = \<lparr>body_password = Str ''abc'',
               related_terms = [Str ''ann@example.com'', Str ''Ann'']\<rparr>,
       config = None\<rparr>]"
    using scoring_call_is_a_post
      [where s = "run [Change Email (Str ''ann@example.com''), Change FirstName (Str ''Ann''),
          Change Password (Str ''abc'')] mounted" and r = 1000 and d = 1000
        and e = Rerender and es = "[]"]
    by (simp only: before) (simp add: relatedTerms_def)
  moreover have "list_all scoring_call (requests (run [Change Email (Str ''ann@example.com''),
       Change FirstName (Str ''Ann''), Change Password (Str ''abc''), Wait 1000,
       Failed, Wait 5000, Retry] mounted))"
    using scoring_call_is_a_post
      [where es = "[Change Email (Str ''ann@example.com''), Change FirstName (Str ''Ann''),
          Change Password (Str ''abc''), Wait 1000, Failed, Wait 5000, Retry]"
        and s = mounted and e = Rerender and r = 0 and d = 0]
    by simp
  ultimately show ?thesis by simp
qed

text \<open>
  C7 as the claim states it says no retry is added. The call for \<open>abc\<close> fails and
  \<open>useSWR\<close>, whose retry the page leaves on, makes it a second time.
\<close>

theorem failed_call_is_retried_counterexample:
  "requests (run [Change Password (Str ''abc''), Wait 1000, Failed, Wait 5000, Retry] mounted) =
     [fetcher endpoint (Str ''abc'') [], fetcher endpoint (Str ''abc'') []]"
  by (simp add: eval_defs wait_early wait_due wait_None)

text \<open>
  C9. Once the debounced password is not empty it stays so, whatever happens next, and
  \<open>useSWR\<close> keeps a key. When the password field is cleared and stays empty, the debounced
  password keeps its value and the key keeps that password; and when the response for
  that key has a score with a tier, the meter shows that tier, with its color, its
  percentage, its label and the three hints, while the password field is empty.
\<close>

theorem cleared_password_keeps_snapshot:
  assumes "truthy (debouncedPassword s)" and "\<not> truthy x" and "list_all keeps_password_empty es"
  shows "truthy (debouncedPassword (run es' s)) \<and> swr_key (run es' s) \<noteq> None \<and>
    \<not> truthy (password (form (run (Change Password x # es) s))) \<and>
    debouncedPassword (run (Change Password x # es) s) = debouncedPassword s \<and>
    swr_key (run (Change Password x # es) s) =
      Some (endpoint, debouncedPassword s,
        filter truthy (relatedTerms (form (run (Change Password x # es) s)))) \<and>
    (scoreMap_at (score_of (answer (endpoint, debouncedPassword s,
        filter truthy (relatedTerms (form (run (Change Password x # es) s)))))) = Some tr \<longrightarrow>
      strength_meter t (useSWR_data answer (run (Change Password x # es) s)) =
        Some \<lparr>colorScheme = Some (color tr), progress_value = Some (score tr),
              label = t (key tr),
              hints = [t ''not_repetitive'', t ''not_include_name'', t ''min_required'']\<rparr>)"
proof -
  define s' where "s' = run (Change Password x # es) s"
  have always: "truthy (debouncedPassword (run es' s))"
    using assms(1) by (rule truthy_debounced_run)
  have "\<not> truthy (password (form (change Password x s)))"
    using assms(2) by (simp add: change_def)
  from empty_run [OF assms(3) this]
  have kept: "debouncedPassword s' = debouncedPassword s"
    and cleared: "\<not> truthy (password (form s'))"
    by (simp_all add: s'_def change_def)
  from kept assms(1) have key: "swr_key s' =
      Some (endpoint, debouncedPassword s, filter truthy (relatedTerms (form s')))"
    by (simp add: swr_key_def)
  have meter: "strength_meter t (useSWR_data answer s') =
      Some \<lparr>colorScheme = Some (color tr), progress_value = Some (score tr),
            label = t (key tr),
            hints = [t ''not_repetitive'', t ''not_include_name'', t ''min_required'']\<rparr>"
    if "scoreMap_at (score_of (answer (endpoint, debouncedPassword s,
        filter truthy (relatedTerms (form s'))))) = Some tr"
    using that keys_nonempty [OF that]
    by (simp add: useSWR_data_def key strength_meter_def scoreTextKey_def scoreColor_def
        scoreProgress_def)
  show ?thesis
    unfolding s'_def [symmetric]
    using always kept cleared key meter by (simp add: swr_key_def)
qed

text \<open>
  The password \<open>abc\<close> is committed and the service answers its call with the score 3.
  The password is then cleared; five seconds later the field is empty, the debounced
  password is still \<open>abc\<close> and the meter shows the tier of 3.
\<close>

theorem cleared_password_keeps_snapshot_witness:
  "password (form (run [Change Password (Str []), Wait 5000]
      (run [Change Password (Str ''abc''), Wait 1000] mounted))) = Str [] \<and>
   debouncedPassword (run [Change Password (Str []), Wait 5000]
      (run [Change Password (Str ''abc''), Wait 1000] mounted)) = Str ''abc'' \<and>
   strength_meter id
     (useSWR_data (\<lambda>k. if k = (endpoint, Str ''abc'', []) then scored (Fin 3) else None)
       (run [Change Password (Str []), Wait 5000]
         (run [Change Password (Str ''abc''), Wait 1000] mounted))) =
     Some \<lparr>colorScheme = Some ''cyan'', progress_value = Some 80, label = ''strong'',
           hints = [''not_repetitive'', ''not_include_name'', ''min_required'']\<rparr>"
proof -
  have committed: "run [Change Password (Str ''abc''), Wait 1000] mounted =
      \<lparr>form = \<lparr>firstName = Str [], middleName = Str [], lastName = Str [],
               email = Str [], password = Str ''abc''\<rparr>,
       debouncedPassword = Str ''abc'', timer = Some 1000,
       requests = [fetcher endpoint (Str ''abc'') []],
       fetching = [(endpoint, Str ''abc'', [])]\<rparr>"
    by (simp add: eval_defs wait_early wait_due wait_None)
  have final: "form (run [Change Password (Str []), Wait 5000]
      (run [Change Password (Str ''abc''), Wait 1000] mounted)) =
      \<lparr>firstName = Str [], middleName = Str [], lastName = Str [],
        email = Str [], password = Str []\<rparr>"
    by (simp only: committed) (simp add: form_wait change_def)
  show ?thesis
    using cleared_password_keeps_snapshot
      [where s = "run [Change Password (Str ''abc''), Wait 1000] mounted" and x = "Str []"
        and es = "[Wait 5000]"
        and answer = "\<lambda>k. if k = (endpoint, Str ''abc'', []) then scored (Fin 3) else None"
        and tr = "\<lparr>key = ''strong'', score = 80, color = ''cyan''\<rparr>" and es' = "[]"
        and t = id]
    by (simp only: final, simp only: committed)
      (simp add: eval_defs wait_early wait_due wait_None score_of_def scoreMap_def
        useSWR_data_def)
qed

end
